theory Spec2Isabelle
  imports Main "HOL-Library.Sublist"
begin

section \<open>Data model\<close>

text \<open>
  The views of \<^verbatim>\<open>app/server/views.py\<close> work on the rows of a relational database
  through an object-relational mapper. The database is a record of tables, every table a
  list of rows in storage order. A foreign key is the primary key of the row it refers to.
\<close>

datatype error =
    Http404
  | NotAuthenticated
  | PermissionDenied
  | KeyError
  | IndexError
  | AttributeError
  | UnboundLocalError
  | DoesNotExist
  | MultipleObjectsReturned
  | ReaderError

record user =
  u_id :: nat
  username :: string
  is_staff :: bool

text \<open>
  Modelled from the spec: the model classes of \<^verbatim>\<open>models.py\<close> (Project, Label,
  Document and the three Annotation subtypes) are not part of the sources. The spec gives a
  Project a name and a project type tag selecting one of document classification, sequence
  labeling and sequence-to-sequence, and a set of users; a Document free text and a
  back-reference to its Project; a Label a text scoped to one Project; a DocumentAnnotation
  a document and a label, a SequenceAnnotation a document, a label and a start and end
  offset, a Seq2seqAnnotation a document and a free text; every annotation its authoring
  user and a manual flag.
\<close>

datatype project_type = DOCUMENT_CLASSIFICATION | SEQUENCE_LABELING | Seq2seq

record project =
  p_id :: nat
  p_name :: string
  p_type :: project_type

record label =
  l_id :: nat
  l_text :: string
  l_project :: nat

record document =
  d_id :: nat
  d_text :: string
  d_project :: nat

datatype annotation =
    DocumentAnnotation (a_id: nat) (a_document: nat) (a_label_id: nat) (a_manual: bool)
      (a_user: nat)
  | SequenceAnnotation (a_id: nat) (a_document: nat) (a_label_id: nat) (a_manual: bool)
      (a_user: nat) (a_start_offset: int) (a_end_offset: int)
  | Seq2seqAnnotation (a_id: nat) (a_document: nat) (a_text: string) (a_manual: bool)
      (a_user: nat)

text \<open>
  The class of an annotation row. The three annotation classes have a table each, with
  primary keys of their own; the field \<open>annotations\<close> below holds the rows of the three
  tables, and the rows of one class are those built with its constructor.
\<close>

fun annotation_class :: "annotation \<Rightarrow> project_type" where
  "annotation_class (DocumentAnnotation i d l m u) = DOCUMENT_CLASSIFICATION"
| "annotation_class (SequenceAnnotation i d l m u s e) = SEQUENCE_LABELING"
| "annotation_class (Seq2seqAnnotation i d t m u) = Seq2seq"

record db =
  projects :: "project list"
  users :: "user list"
  project_users :: "(nat \<times> nat) list"
  labels :: "label list"
  documents :: "document list"
  annotations :: "annotation list"

section \<open>The object-relational mapper\<close>

text \<open>\<^verbatim>\<open>get_object_or_404(Model, pk=...)\<close>: the row with that primary key, or Http404.\<close>

definition get_object_or_404 :: "('a \<Rightarrow> nat) \<Rightarrow> 'a list \<Rightarrow> nat \<Rightarrow> error + 'a" where
  "get_object_or_404 key rows pk =
     (case find (\<lambda>r. key r = pk) rows of None \<Rightarrow> Inl Http404 | Some r \<Rightarrow> Inr r)"

text \<open>\<^verbatim>\<open>Model.objects.get(id=...)\<close>: the row with that primary key, or DoesNotExist.
  Reading a foreign key attribute (\<^verbatim>\<open>a.user\<close>, \<^verbatim>\<open>a.label\<close>) is such a lookup.\<close>

definition objects_get :: "('a \<Rightarrow> nat) \<Rightarrow> 'a list \<Rightarrow> nat \<Rightarrow> error + 'a" where
  "objects_get key rows pk =
     (case find (\<lambda>r. key r = pk) rows of None \<Rightarrow> Inl DoesNotExist | Some r \<Rightarrow> Inr r)"

text \<open>The primary key a new row receives when it is saved.\<close>

definition next_id :: "nat list \<Rightarrow> nat" where
  "next_id ids = Suc (fold max ids 0)"

text \<open>\<^verbatim>\<open>project.users.all()\<close>: the users joined to the project by the many-to-many table.\<close>

definition project_users_all :: "db \<Rightarrow> project \<Rightarrow> user list" where
  "project_users_all s p = [u \<leftarrow> users s. (p_id p, u_id u) \<in> set (project_users s)]"

text \<open>\<^verbatim>\<open>project.labels.all()\<close> and \<^verbatim>\<open>project.documents.all()\<close>: the rows whose
  back-reference is the project.\<close>

definition project_labels_all :: "db \<Rightarrow> project \<Rightarrow> label list" where
  "project_labels_all s p = [l \<leftarrow> labels s. l_project l = p_id p]"

definition project_documents_all :: "db \<Rightarrow> project \<Rightarrow> document list" where
  "project_documents_all s p = [d \<leftarrow> documents s. d_project d = p_id p]"

text \<open>The rows of one annotation class.\<close>

definition annotation_objects :: "db \<Rightarrow> project_type \<Rightarrow> annotation list" where
  "annotation_objects s c = [a \<leftarrow> annotations s. annotation_class a = c]"

text \<open>\<^verbatim>\<open>user in queryset\<close>: model instances are equal when their primary keys are;
  the anonymous user is no row of the user table.\<close>

definition user_in :: "user option \<Rightarrow> user list \<Rightarrow> bool" where
  "user_in ru qs = (case ru of None \<Rightarrow> False | Some u \<Rightarrow> list_ex (\<lambda>v. u_id v = u_id u) qs)"

definition user_eq :: "user \<Rightarrow> user option \<Rightarrow> bool" where
  "user_eq v ru = (case ru of None \<Rightarrow> False | Some u \<Rightarrow> u_id v = u_id u)"

text \<open>
  Modelled from the spec: \<^verbatim>\<open>Project.is_type_of\<close>, \<^verbatim>\<open>Project.get_annotation_class\<close>
  and \<^verbatim>\<open>Project.get_annotation_serializer\<close> of \<^verbatim>\<open>models.py\<close>, which is not part of
  the sources: the project type determines which Annotation subtype and which serializer
  class are valid for the project's documents.
\<close>

definition is_type_of :: "project \<Rightarrow> project_type \<Rightarrow> bool" where
  "is_type_of p t = (p_type p = t)"

definition get_annotation_class :: "project \<Rightarrow> project_type" where
  "get_annotation_class p = p_type p"

datatype serializer =
  DocumentAnnotationSerializer | SequenceAnnotationSerializer | Seq2seqAnnotationSerializer

definition get_annotation_serializer :: "project \<Rightarrow> serializer" where
  "get_annotation_serializer p =
     (case p_type p of
        DOCUMENT_CLASSIFICATION \<Rightarrow> DocumentAnnotationSerializer
      | SEQUENCE_LABELING \<Rightarrow> SequenceAnnotationSerializer
      | Seq2seq \<Rightarrow> Seq2seqAnnotationSerializer)"

text \<open>
  Modelled from the spec: \<^verbatim>\<open>Document.get_annotations\<close> of \<^verbatim>\<open>models.py\<close>, which is not
  part of the sources: a Document owns zero or more Annotations.
\<close>

definition get_annotations :: "db \<Rightarrow> document \<Rightarrow> annotation list" where
  "get_annotations s d = [a \<leftarrow> annotations s. a_document a = d_id d]"

section \<open>Permission classes\<close>

text \<open>The framework's \<^verbatim>\<open>IsAuthenticated\<close> and \<^verbatim>\<open>IsAdminUser\<close>: the request's user
  is \<open>None\<close> for an anonymous request.\<close>

definition IsAuthenticated :: "user option \<Rightarrow> bool" where
  "IsAuthenticated ru = (case ru of None \<Rightarrow> False | Some u \<Rightarrow> True)"

definition IsAdminUser :: "user option \<Rightarrow> bool" where
  "IsAdminUser ru = (case ru of None \<Rightarrow> False | Some u \<Rightarrow> is_staff u)"

definition SAFE_METHODS :: "string list" where
  "SAFE_METHODS = [''GET'', ''HEAD'', ''OPTIONS'']"

definition IsProjectUser :: "db \<Rightarrow> user option \<Rightarrow> nat \<Rightarrow> error + bool" where
  "IsProjectUser s ru project_id =
     (case get_object_or_404 p_id (projects s) project_id of
        Inl e \<Rightarrow> Inl e
      | Inr project \<Rightarrow> Inr (user_in ru (project_users_all s project)))"

definition IsAdminUserAndWriteOnly :: "string \<Rightarrow> user option \<Rightarrow> bool" where
  "IsAdminUserAndWriteOnly method ru =
     (if method \<in> set SAFE_METHODS then True else IsAdminUser ru)"

definition IsOwnAnnotation :: "db \<Rightarrow> user option \<Rightarrow> nat \<Rightarrow> nat \<Rightarrow> error + bool" where
  "IsOwnAnnotation s ru project_id annotation_id =
     (case get_object_or_404 p_id (projects s) project_id of
        Inl e \<Rightarrow> Inl e
      | Inr project \<Rightarrow>
          (case objects_get a_id (annotation_objects s (get_annotation_class project))
                  annotation_id of
             Inl e \<Rightarrow> Inl e
           | Inr annotation \<Rightarrow>
               (case objects_get u_id (users s) (a_user annotation) of
                  Inl e \<Rightarrow> Inl e
                | Inr author \<Rightarrow> Inr (user_eq author ru))))"

text \<open>
  The framework's permission pipeline: the permission classes of a view are asked in
  order; the first one that refuses ends the request, with NotAuthenticated for an
  anonymous request and PermissionDenied otherwise, and an exception raised by a
  permission class ends it as well.
\<close>

fun check_permissions :: "user option \<Rightarrow> (error + bool) list \<Rightarrow> error + unit" where
  "check_permissions ru [] = Inr ()"
| "check_permissions ru (Inl e # rest) = Inl e"
| "check_permissions ru (Inr granted # rest) =
     (if granted then check_permissions ru rest
      else Inl (case ru of None \<Rightarrow> NotAuthenticated | Some u \<Rightarrow> PermissionDenied))"

section \<open>CSV bulk import: \<^verbatim>\<open>DatasetUpload.post\<close>\<close>

text \<open>
  What iterating \<^verbatim>\<open>csv.reader\<close> over the decoded upload yields, in order: a row (the
  list of its columns; a blank line of the file is the empty list), or an exception of the
  decoder or of the reader, which ends the iteration.
\<close>

datatype reader_item = Row "string list" | Raises

text \<open>\<^verbatim>\<open>reverse(name, args=[...])\<close> is kept symbolic: the route name and its arguments.\<close>

datatype http_response = HttpResponseRedirect string "nat list"

text \<open>\<^verbatim>\<open>Document(text=text, project=project).save()\<close>: a new row of the document table.\<close>

definition Document_save :: "db \<Rightarrow> string \<Rightarrow> project \<Rightarrow> db" where
  "Document_save s text project =
     s\<lparr>documents := documents s @
          [\<lparr>d_id = next_id (map d_id (documents s)), d_text = text,
            d_project = p_id project\<rparr>]\<rparr>"

text \<open>The loop over the reader. \<^verbatim>\<open>line[0]\<close> raises IndexError on an empty row. The
  database is returned as the loop left it, whether it ended or raised.\<close>

fun import_lines :: "db \<Rightarrow> project \<Rightarrow> reader_item list \<Rightarrow> db \<times> (error + unit)" where
  "import_lines s project [] = (s, Inr ())"
| "import_lines s project (Raises # rest) = (s, Inl ReaderError)"
| "import_lines s project (Row line # rest) =
     (case line of
        [] \<Rightarrow> (s, Inl IndexError)
      | text # cols \<Rightarrow> import_lines (Document_save s text project) project rest)"

text \<open>The handler. \<open>csv_file\<close> is \<^verbatim>\<open>request.FILES['csv_file']\<close>, \<open>None\<close> when the request
  has no such file (a KeyError inside the \<^verbatim>\<open>try\<close>). The bare \<^verbatim>\<open>except\<close> turns every
  exception of the \<^verbatim>\<open>try\<close> block into the redirect to the upload form; the lookup of the
  project is before the \<^verbatim>\<open>try\<close>.\<close>

definition DatasetUpload_post ::
  "db \<Rightarrow> reader_item list option \<Rightarrow> nat \<Rightarrow> db \<times> (error + http_response)" where
  "DatasetUpload_post s csv_file project_id =
     (case get_object_or_404 p_id (projects s) project_id of
        Inl e \<Rightarrow> (s, Inl e)
      | Inr project \<Rightarrow>
          (case csv_file of
             None \<Rightarrow> (s, Inr (HttpResponseRedirect ''dataset-upload'' [p_id project]))
           | Some reader \<Rightarrow>
               (case import_lines s project reader of
                  (s', Inr u) \<Rightarrow> (s', Inr (HttpResponseRedirect ''dataset'' [p_id project]))
                | (s', Inl e) \<Rightarrow>
                    (s', Inr (HttpResponseRedirect ''dataset-upload'' [p_id project])))))"

section \<open>Progress: \<^verbatim>\<open>ProjectViewSet\<close>\<close>

text \<open>The decimal numeral of a primary key, and the substring test of the database's
  \<^verbatim>\<open>LIKE '%...%'\<close>, which is what the lookup \<^verbatim>\<open>users__id__contains\<close> compiles to.\<close>

fun str_nat :: "nat \<Rightarrow> string" where
  "str_nat n =
     (if n < 10 then [char_of (48 + n)]
      else str_nat (n div 10) @ [char_of (48 + n mod 10)])"

declare str_nat.simps [simp del]

fun contains :: "string \<Rightarrow> string \<Rightarrow> bool" where
  "contains [] needle = (needle = [])"
| "contains (c # cs) needle = (prefix needle (c # cs) \<or> contains cs needle)"

text \<open>\<^verbatim>\<open>get_queryset\<close>: the projects joined with the rows of the many-to-many table that
  pass the filter, one result row for each such pair.\<close>

definition ProjectViewSet_get_queryset :: "db \<Rightarrow> user \<Rightarrow> project list" where
  "ProjectViewSet_get_queryset s user =
     concat (map (\<lambda>p. map (\<lambda>m. p)
       [m \<leftarrow> project_users s. fst m = p_id p \<and> contains (str_nat (snd m)) (str_nat (u_id user))])
       (projects s))"

text \<open>The framework's \<^verbatim>\<open>get_object\<close>: \<^verbatim>\<open>get_object_or_404(queryset, pk=pk)\<close> on the
  view's queryset. No row is Http404; more than one row is MultipleObjectsReturned.\<close>

definition ProjectViewSet_get_object :: "db \<Rightarrow> user \<Rightarrow> nat \<Rightarrow> error + project" where
  "ProjectViewSet_get_object s user pk =
     (case [p \<leftarrow> ProjectViewSet_get_queryset s user. p_id p = pk] of
        [] \<Rightarrow> Inl Http404
      | [p] \<Rightarrow> Inr p
      | p # q # ps \<Rightarrow> Inl MultipleObjectsReturned)"

record progress_response =
  total :: nat
  remaining :: nat

text \<open>The action \<^verbatim>\<open>progress\<close>. \<^verbatim>\<open>Project.get_documents\<close> is a method of \<^verbatim>\<open>models.py\<close>,
  which is not part of the sources, and the spec does not describe it: it is the
  parameter \<open>get_documents\<close> of the handler, a query on the database for a project and the
  flag \<^verbatim>\<open>is_null\<close>.\<close>

definition ProjectViewSet_progress ::
  "(db \<Rightarrow> project \<Rightarrow> bool \<Rightarrow> document list) \<Rightarrow> db \<Rightarrow> user \<Rightarrow> nat
     \<Rightarrow> error + progress_response" where
  "ProjectViewSet_progress get_documents s user pk =
     (case ProjectViewSet_get_object s user pk of
        Inl e \<Rightarrow> Inl e
      | Inr project \<Rightarrow>
          (let docs = get_documents s project True;
               total = length (project_documents_all s project);
               remaining = length docs
           in Inr \<lparr>total = total, remaining = remaining\<rparr>))"

section \<open>Labels: \<^verbatim>\<open>ProjectLabelsAPI\<close>\<close>

definition ProjectLabelsAPI_get_queryset :: "db \<Rightarrow> nat \<Rightarrow> label list" where
  "ProjectLabelsAPI_get_queryset s project_id = [l \<leftarrow> labels s. l_project l = project_id]"

text \<open>A GET request to the view: the permission classes \<^verbatim>\<open>(IsAuthenticated,
  IsProjectUser, IsAdminUserAndWriteOnly)\<close>, then the list of the queryset.\<close>

definition ProjectLabelsAPI_dispatch_get :: "db \<Rightarrow> user option \<Rightarrow> nat \<Rightarrow> error + label list" where
  "ProjectLabelsAPI_dispatch_get s ru project_id =
     (case check_permissions ru
             [Inr (IsAuthenticated ru), IsProjectUser s ru project_id,
              Inr (IsAdminUserAndWriteOnly ''GET'' ru)] of
        Inl e \<Rightarrow> Inl e
      | Inr u \<Rightarrow> Inr (ProjectLabelsAPI_get_queryset s project_id))"

section \<open>Statistics: \<^verbatim>\<open>ProjectStatsAPI.get\<close>\<close>

text \<open>\<^verbatim>\<open>Counter(xs)\<close> counts the elements of \<open>xs\<close> one after the other; \<^verbatim>\<open>counter[k]\<close>
  of a key never counted is 0.\<close>

definition Counter :: "'a list \<Rightarrow> 'a \<Rightarrow> nat" where
  "Counter xs = fold (\<lambda>x c. c(x := c x + 1)) xs (\<lambda>k. 0)"

text \<open>A list comprehension whose element expression can raise: the first exception, in
  the order of the list, ends it.\<close>

fun comprehension :: "('a \<Rightarrow> error + 'b) \<Rightarrow> 'a list \<Rightarrow> error + 'b list" where
  "comprehension f [] = Inr []"
| "comprehension f (x # xs) =
     (case f x of
        Inl e \<Rightarrow> Inl e
      | Inr y \<Rightarrow> (case comprehension f xs of Inl e \<Rightarrow> Inl e | Inr ys \<Rightarrow> Inr (y # ys)))"

text \<open>\<^verbatim>\<open>a.label.text\<close>: a Seq2seqAnnotation has no attribute \<^verbatim>\<open>label\<close>.\<close>

fun annotation_label_text :: "db \<Rightarrow> annotation \<Rightarrow> error + string" where
  "annotation_label_text s (Seq2seqAnnotation i d t m u) = Inl AttributeError"
| "annotation_label_text s a =
     (case objects_get l_id (labels s) (a_label_id a) of
        Inl e \<Rightarrow> Inl e
      | Inr l \<Rightarrow> Inr (l_text l))"

text \<open>\<^verbatim>\<open>a.user.username\<close>.\<close>

definition annotation_user_username :: "db \<Rightarrow> annotation \<Rightarrow> error + string" where
  "annotation_user_username s a =
     (case objects_get u_id (users s) (a_user a) of
        Inl e \<Rightarrow> Inl e
      | Inr u \<Rightarrow> Inr (username u))"

record label_stats =
  ls_labels :: "string list"
  ls_data :: "nat list"

record user_stats =
  us_users :: "string list"
  us_data :: "nat list"

record stats_response =
  r_label :: label_stats
  r_user :: user_stats

definition ProjectStatsAPI_get :: "db \<Rightarrow> nat \<Rightarrow> error + stats_response" where
  "ProjectStatsAPI_get s project_id =
     (case get_object_or_404 p_id (projects s) project_id of
        Inl e \<Rightarrow> Inl e
      | Inr p \<Rightarrow>
          (let labels = map l_text (project_labels_all s p);
               users = map username (project_users_all s p);
               docs = project_documents_all s p
           in case comprehension
                     (\<lambda>doc. comprehension (annotation_label_text s) (get_annotations s doc))
                     docs of
                Inl e \<Rightarrow> Inl e
              | Inr nested_labels \<Rightarrow>
                  (case comprehension
                          (\<lambda>doc. comprehension (annotation_user_username s)
                             (get_annotations s doc))
                          docs of
                     Inl e \<Rightarrow> Inl e
                   | Inr nested_users \<Rightarrow>
                       (let label_count = Counter (concat nested_labels);
                            label_data = map label_count labels;
                            user_count = Counter (concat nested_users);
                            user_data = map user_count users
                        in Inr \<lparr>r_label = \<lparr>ls_labels = labels, ls_data = label_data\<rparr>,
                                r_user = \<lparr>us_users = users, us_data = user_data\<rparr>\<rparr>))))"

section \<open>Annotations: \<^verbatim>\<open>AnnotationsAPI.post\<close> and \<^verbatim>\<open>AnnotationAPI.put\<close>\<close>

text \<open>\<^verbatim>\<open>request.data\<close>: the keys the two handlers read; \<open>None\<close> is a key that the
  request does not have, and reading it raises KeyError.\<close>

record request_data =
  rd_label_id :: "nat option"
  rd_start_offset :: "int option"
  rd_end_offset :: "int option"
  rd_text :: "string option"
  rd_id :: "nat option"

definition data_get :: "'a option \<Rightarrow> error + 'a" where
  "data_get v = (case v of None \<Rightarrow> Inl KeyError | Some x \<Rightarrow> Inr x)"

text \<open>\<^verbatim>\<open>serializer_class(annotation).data\<close> is kept symbolic: the serializer class and
  the annotation it serializes.\<close>

datatype serialized = Serialized serializer annotation

text \<open>\<^verbatim>\<open>annotation.save()\<close> of an object the handler has built inserts a row with a new
  primary key into the table of its class; of an object the handler has fetched it
  updates the row of that class with that primary key. An object not yet saved is a
  function of the primary key it will receive.\<close>

definition Annotation_insert :: "db \<Rightarrow> (nat \<Rightarrow> annotation) \<Rightarrow> db \<times> annotation" where
  "Annotation_insert s unsaved =
     (let c = annotation_class (unsaved 0);
          a = unsaved (next_id (map a_id (annotation_objects s c)))
      in (s\<lparr>annotations := annotations s @ [a]\<rparr>, a))"

definition Annotation_update :: "db \<Rightarrow> annotation \<Rightarrow> db" where
  "Annotation_update s a =
     s\<lparr>annotations :=
         map (\<lambda>b. if annotation_class b = annotation_class a \<and> a_id b = a_id a then a else b)
           (annotations s)\<rparr>"

definition AnnotationsAPI_post ::
  "db \<Rightarrow> user \<Rightarrow> nat \<Rightarrow> nat \<Rightarrow> request_data \<Rightarrow> db \<times> (error + serialized)" where
  "AnnotationsAPI_post s user project_id doc_id data =
     (case get_object_or_404 d_id (documents s) doc_id of
        Inl e \<Rightarrow> (s, Inl e)
      | Inr doc \<Rightarrow>
     (case get_object_or_404 p_id (projects s) project_id of
        Inl e \<Rightarrow> (s, Inl e)
      | Inr project \<Rightarrow>
     (let serializer_class = get_annotation_serializer project;
          respond = (\<lambda>unsaved. case Annotation_insert s unsaved of
                        (s', annotation) \<Rightarrow> (s', Inr (Serialized serializer_class annotation)))
      in
      if is_type_of project DOCUMENT_CLASSIFICATION then
        (case data_get (rd_label_id data) of
           Inl e \<Rightarrow> (s, Inl e)
         | Inr label_id \<Rightarrow>
        (case get_object_or_404 l_id (labels s) label_id of
           Inl e \<Rightarrow> (s, Inl e)
         | Inr label \<Rightarrow>
             respond (\<lambda>i. DocumentAnnotation i (d_id doc) (l_id label) True (u_id user))))
      else if is_type_of project SEQUENCE_LABELING then
        (case data_get (rd_label_id data) of
           Inl e \<Rightarrow> (s, Inl e)
         | Inr label_id \<Rightarrow>
        (case get_object_or_404 l_id (labels s) label_id of
           Inl e \<Rightarrow> (s, Inl e)
         | Inr label \<Rightarrow>
        (case data_get (rd_start_offset data) of
           Inl e \<Rightarrow> (s, Inl e)
         | Inr start_offset \<Rightarrow>
        (case data_get (rd_end_offset data) of
           Inl e \<Rightarrow> (s, Inl e)
         | Inr end_offset \<Rightarrow>
             respond (\<lambda>i. SequenceAnnotation i (d_id doc) (l_id label) True (u_id user)
                             start_offset end_offset)))))
      else if is_type_of project Seq2seq then
        (case data_get (rd_text data) of
           Inl e \<Rightarrow> (s, Inl e)
         | Inr text \<Rightarrow>
             respond (\<lambda>i. Seq2seqAnnotation i (d_id doc) text True (u_id user)))
      else (s, Inl UnboundLocalError))))"

text \<open>\<^verbatim>\<open>annotation.text = text\<close> on a fetched Seq2seqAnnotation.\<close>

fun set_text :: "string \<Rightarrow> annotation \<Rightarrow> annotation" where
  "set_text text (Seq2seqAnnotation i d t m u) = Seq2seqAnnotation i d text m u"
| "set_text text a = a"

text \<open>The handler binds \<^verbatim>\<open>annotation\<close> in the branch of a Seq2seq project only; the
  \<^verbatim>\<open>annotation.save()\<close> after the \<^verbatim>\<open>if\<close> reads an unbound local variable otherwise.\<close>

definition AnnotationAPI_put ::
  "db \<Rightarrow> user \<Rightarrow> nat \<Rightarrow> nat \<Rightarrow> request_data \<Rightarrow> db \<times> (error + serialized)" where
  "AnnotationAPI_put s user project_id doc_id data =
     (case get_object_or_404 d_id (documents s) doc_id of
        Inl e \<Rightarrow> (s, Inl e)
      | Inr doc \<Rightarrow>
     (case get_object_or_404 p_id (projects s) project_id of
        Inl e \<Rightarrow> (s, Inl e)
      | Inr project \<Rightarrow>
     (let serializer_class = get_annotation_serializer project in
      if is_type_of project Seq2seq then
        (case data_get (rd_text data) of
           Inl e \<Rightarrow> (s, Inl e)
         | Inr text \<Rightarrow>
        (case data_get (rd_id data) of
           Inl e \<Rightarrow> (s, Inl e)
         | Inr pk \<Rightarrow>
        (case get_object_or_404 a_id (annotation_objects s Seq2seq) pk of
           Inl e \<Rightarrow> (s, Inl e)
         | Inr fetched \<Rightarrow>
             (let annotation = set_text text fetched
              in (Annotation_update s annotation,
                  Inr (Serialized serializer_class annotation))))))
      else (s, Inl UnboundLocalError))))"

text \<open>A PUT request to the view: the permission classes \<^verbatim>\<open>(IsAuthenticated,
  IsProjectUser, IsOwnAnnotation)\<close>, then the handler.\<close>

definition AnnotationAPI_dispatch_put ::
  "db \<Rightarrow> user option \<Rightarrow> nat \<Rightarrow> nat \<Rightarrow> nat \<Rightarrow> request_data \<Rightarrow> db \<times> (error + serialized)" where
  "AnnotationAPI_dispatch_put s ru project_id doc_id annotation_id data =
     (case check_permissions ru
             [Inr (IsAuthenticated ru), IsProjectUser s ru project_id,
              IsOwnAnnotation s ru project_id annotation_id] of
        Inl e \<Rightarrow> (s, Inl e)
      | Inr u \<Rightarrow>
          (case ru of
             None \<Rightarrow> (s, Inl NotAuthenticated)
           | Some user \<Rightarrow> AnnotationAPI_put s user project_id doc_id data))"

section \<open>An example database\<close>

text \<open>
  Three projects, one of each type. Alice is an administrator and a member of all three,
  Bob is a member of none. The first document of the classification project and the
  document of the translation project are annotated by Alice.
\<close>

definition alice :: user where
  "alice = \<lparr>u_id = 1, username = ''alice'', is_staff = True\<rparr>"

definition bob :: user where
  "bob = \<lparr>u_id = 2, username = ''bob'', is_staff = False\<rparr>"

definition example_db :: db where
  "example_db =
     \<lparr>projects =
        [\<lparr>p_id = 1, p_name = ''news'', p_type = DOCUMENT_CLASSIFICATION\<rparr>,
         \<lparr>p_id = 2, p_name = ''translation'', p_type = Seq2seq\<rparr>,
         \<lparr>p_id = 3, p_name = ''entities'', p_type = SEQUENCE_LABELING\<rparr>],
      users = [alice, bob],
      project_users = [(1, 1), (2, 1), (3, 1)],
      labels =
        [\<lparr>l_id = 1, l_text = ''positive'', l_project = 1\<rparr>,
         \<lparr>l_id = 2, l_text = ''negative'', l_project = 1\<rparr>,
         \<lparr>l_id = 3, l_text = ''person'', l_project = 3\<rparr>],
      documents =
        [\<lparr>d_id = 1, d_text = ''good'', d_project = 1\<rparr>,
         \<lparr>d_id = 2, d_text = ''bad'', d_project = 1\<rparr>,
         \<lparr>d_id = 3, d_text = ''hello'', d_project = 2\<rparr>,
         \<lparr>d_id = 4, d_text = ''Ada wrote'', d_project = 3\<rparr>],
      annotations =
        [DocumentAnnotation 1 1 1 True 1,
         Seq2seqAnnotation 1 3 ''bonjour'' True 1]\<rparr>"

text \<open>
  A second database: Alice, with primary key 1, and Carol, with primary key 11, are the
  members of project 1; Carol alone is a member of project 2.
\<close>

definition carol :: user where
  "carol = \<lparr>u_id = 11, username = ''carol'', is_staff = False\<rparr>"

definition members_db :: db where
  "members_db =
     \<lparr>projects =
        [\<lparr>p_id = 1, p_name = ''news'', p_type = DOCUMENT_CLASSIFICATION\<rparr>,
         \<lparr>p_id = 2, p_name = ''reviews'', p_type = DOCUMENT_CLASSIFICATION\<rparr>],
      users = [alice, carol],
      project_users = [(1, 1), (1, 11), (2, 11)],
      labels = [],
      documents =
        [\<lparr>d_id = 1, d_text = ''good'', d_project = 1\<rparr>,
         \<lparr>d_id = 2, d_text = ''bad'', d_project = 2\<rparr>],
      annotations = []\<rparr>"

section \<open>Lookups\<close>

lemma get_object_or_404_Inr:
  "get_object_or_404 key rows pk = Inr r \<longleftrightarrow> find (\<lambda>r. key r = pk) rows = Some r"
  by (simp add: get_object_or_404_def split: option.splits)

lemma find_SomeD: "find P xs = Some x \<Longrightarrow> x \<in> set xs \<and> P x"
  by (induction xs) (auto split: if_splits)

lemma get_object_or_404_Inl:
  "get_object_or_404 key rows pk = Inl e \<longleftrightarrow> e = Http404 \<and> (\<forall>r\<in>set rows. key r \<noteq> pk)"
proof (cases "find (\<lambda>r. key r = pk) rows")
  case None
  then have "\<forall>r\<in>set rows. key r \<noteq> pk"
    by (simp add: find_None_iff)
  with None show ?thesis
    by (auto simp: get_object_or_404_def)
next
  case (Some r)
  then have "r \<in> set rows \<and> key r = pk"
    by (rule find_SomeD)
  with Some show ?thesis
    by (auto simp: get_object_or_404_def)
qed

lemma get_object_or_404_found:
  "get_object_or_404 key rows pk = Inr r \<Longrightarrow> r \<in> set rows \<and> key r = pk"
  by (auto simp: get_object_or_404_Inr dest: find_SomeD)

lemma user_in_iff:
  "user_in ru qs \<longleftrightarrow> (\<exists>u. ru = Some u \<and> u_id u \<in> u_id ` set qs)"
proof (cases ru)
  case None
  then show ?thesis by (simp add: user_in_def)
next
  case (Some u)
  have "list_ex (\<lambda>v. u_id v = u_id u) qs \<longleftrightarrow> u_id u \<in> u_id ` set qs"
    unfolding list_ex_iff image_iff by (rule bex_cong) auto
  with Some show ?thesis by (simp add: user_in_def)
qed

lemma objects_get_Inr:
  "objects_get key rows pk = Inr r \<longleftrightarrow> find (\<lambda>r. key r = pk) rows = Some r"
  by (simp add: objects_get_def split: option.splits)

lemma example_project_1:
  "get_object_or_404 p_id (projects example_db) 1
     = Inr \<lparr>p_id = 1, p_name = ''news'', p_type = DOCUMENT_CLASSIFICATION\<rparr>"
  by (simp add: example_db_def get_object_or_404_def)

lemma example_project_2:
  "get_object_or_404 p_id (projects example_db) 2
     = Inr \<lparr>p_id = 2, p_name = ''translation'', p_type = Seq2seq\<rparr>"
  by (simp add: example_db_def get_object_or_404_def)

lemma example_project_3:
  "get_object_or_404 p_id (projects example_db) 3
     = Inr \<lparr>p_id = 3, p_name = ''entities'', p_type = SEQUENCE_LABELING\<rparr>"
  by (simp add: example_db_def get_object_or_404_def)

section \<open>Permission classes: the claims\<close>

text \<open>
  C6. \<^verbatim>\<open>IsProjectUser\<close> grants access exactly when the project named in the request
  exists and the requesting user is a user of the database that the many-to-many table
  joins to it. A request whose user is not joined to the project does not get the
  project's labels from \<^verbatim>\<open>ProjectLabelsAPI\<close>: it ends with NotAuthenticated, Http404 or
  PermissionDenied.
\<close>

theorem IsProjectUser_iff_member:
  "(IsProjectUser s ru project_id = Inr True \<longleftrightarrow>
      (\<exists>p\<in>set (projects s). p_id p = project_id) \<and>
      (\<exists>u. ru = Some u \<and> u_id u \<in> u_id ` set (users s) \<and>
           (project_id, u_id u) \<in> set (project_users s)))
   \<and> (\<not> (\<exists>u. ru = Some u \<and> (project_id, u_id u) \<in> set (project_users s)) \<longrightarrow>
        (\<exists>e\<in>{NotAuthenticated, Http404, PermissionDenied}.
           ProjectLabelsAPI_dispatch_get s ru project_id = Inl e))"
proof (cases "get_object_or_404 p_id (projects s) project_id")
  case (Inl e)
  then have none: "e = Http404" "\<forall>r\<in>set (projects s). p_id r \<noteq> project_id"
    by (simp_all add: get_object_or_404_Inl)
  have perm: "IsProjectUser s ru project_id = Inl Http404"
    using Inl none by (simp add: IsProjectUser_def)
  have "ProjectLabelsAPI_dispatch_get s ru project_id = Inl Http404 \<or>
        ProjectLabelsAPI_dispatch_get s ru project_id = Inl NotAuthenticated"
    using perm
    by (cases ru) (simp_all add: ProjectLabelsAPI_dispatch_get_def IsAuthenticated_def)
  then show ?thesis using perm none by auto
next
  case (Inr p)
  then have p: "p \<in> set (projects s)" "p_id p = project_id"
    by (simp_all add: get_object_or_404_found)
  have perm: "IsProjectUser s ru project_id = Inr (user_in ru (project_users_all s p))"
    using Inr by (simp add: IsProjectUser_def)
  have mem: "user_in ru (project_users_all s p) \<longleftrightarrow>
      (\<exists>u. ru = Some u \<and> u_id u \<in> u_id ` set (users s) \<and>
           (project_id, u_id u) \<in> set (project_users s))"
    using p by (auto simp: user_in_iff project_users_all_def)
  have denied: "\<exists>e\<in>{NotAuthenticated, Http404, PermissionDenied}.
           ProjectLabelsAPI_dispatch_get s ru project_id = Inl e"
    if "\<not> user_in ru (project_users_all s p)"
    using that perm
    by (cases ru) (simp_all add: ProjectLabelsAPI_dispatch_get_def IsAuthenticated_def)
  show ?thesis using perm mem p denied by auto
qed

theorem IsProjectUser_iff_member_witness:
  "IsProjectUser example_db (Some alice) 1 = Inr True
   \<and> IsProjectUser example_db (Some bob) 1 \<noteq> Inr True
   \<and> ProjectLabelsAPI_dispatch_get example_db (Some bob) 1 = Inl PermissionDenied"
proof -
  have a: "IsProjectUser example_db (Some alice) 1 = Inr True"
    using IsProjectUser_iff_member [of example_db "Some alice" 1]
    by (simp add: example_db_def alice_def bob_def)
  have b: "IsProjectUser example_db (Some bob) 1 \<noteq> Inr True"
    using IsProjectUser_iff_member [of example_db "Some bob" 1]
    by (simp add: example_db_def alice_def bob_def)
  have "\<exists>e\<in>{NotAuthenticated, Http404, PermissionDenied}.
           ProjectLabelsAPI_dispatch_get example_db (Some bob) 1 = Inl e"
    using IsProjectUser_iff_member [of example_db "Some bob" 1]
    by (simp add: example_db_def alice_def bob_def)
  moreover have "ProjectLabelsAPI_dispatch_get example_db (Some bob) 1 = Inl PermissionDenied"
    by code_simp
  ultimately show ?thesis using a b by simp
qed

text \<open>
  C7. \<^verbatim>\<open>IsAdminUserAndWriteOnly\<close> grants access exactly when the method is one of the
  safe methods GET, HEAD and OPTIONS, or the requesting user is an administrator
  (\<open>is_staff\<close>); a request with a safe method passes whoever the user is.
\<close>

theorem IsAdminUserAndWriteOnly_safe_or_admin:
  "(IsAdminUserAndWriteOnly method ru \<longleftrightarrow>
      method \<in> {''GET'', ''HEAD'', ''OPTIONS''} \<or> (\<exists>u. ru = Some u \<and> is_staff u))
   \<and> (method \<in> {''GET'', ''HEAD'', ''OPTIONS''} \<longrightarrow> (\<forall>ru'. IsAdminUserAndWriteOnly method ru'))"
  by (auto simp: IsAdminUserAndWriteOnly_def SAFE_METHODS_def IsAdminUser_def split: option.splits)

theorem IsAdminUserAndWriteOnly_safe_or_admin_witness:
  "IsAdminUserAndWriteOnly ''GET'' (Some bob) \<and> IsAdminUserAndWriteOnly ''GET'' None
   \<and> IsAdminUserAndWriteOnly ''POST'' (Some alice) \<and> \<not> IsAdminUserAndWriteOnly ''POST'' (Some bob)
   \<and> \<not> IsAdminUserAndWriteOnly ''DELETE'' None"
  using IsAdminUserAndWriteOnly_safe_or_admin [of "''GET''" "Some bob"]
    IsAdminUserAndWriteOnly_safe_or_admin [of "''POST''" "Some alice"]
    IsAdminUserAndWriteOnly_safe_or_admin [of "''POST''" "Some bob"]
    IsAdminUserAndWriteOnly_safe_or_admin [of "''DELETE''" "None"]
  by (simp add: alice_def bob_def)

text \<open>
  C8. When the project of the request exists and the request names an annotation of the
  project's annotation class whose author is a user of the database,
  \<^verbatim>\<open>IsOwnAnnotation\<close> grants access exactly when the requesting user is that author.
\<close>

theorem IsOwnAnnotation_iff_author:
  assumes "get_object_or_404 p_id (projects s) project_id = Inr project"
    and "objects_get a_id (annotation_objects s (get_annotation_class project)) annotation_id
           = Inr annotation"
    and "a_user annotation \<in> u_id ` set (users s)"
  shows "IsOwnAnnotation s ru project_id annotation_id
           = Inr (\<exists>u. ru = Some u \<and> u_id u = a_user annotation)"
proof -
  from assms(3) obtain author where
    author: "find (\<lambda>r. u_id r = a_user annotation) (users s) = Some author"
    by (cases "find (\<lambda>r. u_id r = a_user annotation) (users s)") (auto simp: find_None_iff)
  then have "u_id author = a_user annotation"
    by (auto dest: find_SomeD)
  then have "user_eq author ru \<longleftrightarrow> (\<exists>u. ru = Some u \<and> u_id u = a_user annotation)"
    by (auto simp: user_eq_def split: option.splits)
  then show ?thesis
    using assms(1,2) author by (simp add: IsOwnAnnotation_def objects_get_def)
qed

theorem IsOwnAnnotation_iff_author_witness:
  "IsOwnAnnotation example_db (Some alice) 1 1 = Inr True
   \<and> IsOwnAnnotation example_db (Some bob) 1 1 = Inr False"
proof -
  have p: "get_object_or_404 p_id (projects example_db) 1
             = Inr \<lparr>p_id = 1, p_name = ''news'', p_type = DOCUMENT_CLASSIFICATION\<rparr>"
    by (simp add: example_db_def get_object_or_404_def)
  have a: "objects_get a_id
             (annotation_objects example_db
                (get_annotation_class \<lparr>p_id = 1, p_name = ''news'', p_type = DOCUMENT_CLASSIFICATION\<rparr>)) 1
             = Inr (DocumentAnnotation 1 1 1 True 1)"
    by (simp add: example_db_def objects_get_def annotation_objects_def get_annotation_class_def)
  have u: "a_user (DocumentAnnotation 1 1 1 True 1) \<in> u_id ` set (users example_db)"
    by (simp add: example_db_def alice_def)
  show ?thesis
    using IsOwnAnnotation_iff_author [OF p a u, of "Some alice"]
      IsOwnAnnotation_iff_author [OF p a u, of "Some bob"]
    by (simp add: alice_def bob_def)
qed

section \<open>CSV bulk import: the claims\<close>

lemma import_lines_rows:
  "\<forall>r\<in>set rows. r \<noteq> [] \<Longrightarrow>
   \<exists>new. length new = length rows \<and> map d_text new = map hd rows \<and>
         (\<forall>d\<in>set new. d_project d = p_id project) \<and>
         import_lines s project (map Row rows @ rest)
           = import_lines (s\<lparr>documents := documents s @ new\<rparr>) project rest"
proof (induction rows arbitrary: s)
  case Nil
  show ?case by (rule exI [of _ "[]"]) simp
next
  case (Cons r rows)
  from Cons.prems obtain t cols where r: "r = t # cols"
    by (cases r) auto
  define d where "d = \<lparr>d_id = next_id (map d_id (documents s)), d_text = t,
                       d_project = p_id project\<rparr>"
  define s1 where "s1 = Document_save s t project"
  have s1: "s1 = s\<lparr>documents := documents s @ [d]\<rparr>"
    by (simp add: s1_def d_def Document_save_def)
  from Cons.prems have "\<forall>r\<in>set rows. r \<noteq> []" by simp
  from Cons.IH [OF this, of s1] obtain new where
    new: "length new = length rows" "map d_text new = map hd rows"
      "\<forall>d\<in>set new. d_project d = p_id project"
      "import_lines s1 project (map Row rows @ rest)
         = import_lines (s1\<lparr>documents := documents s1 @ new\<rparr>) project rest"
    by blast
  have upd: "s1\<lparr>documents := documents s1 @ new\<rparr> = s\<lparr>documents := documents s @ (d # new)\<rparr>"
    by (simp add: s1)
  have step: "import_lines s project (map Row (r # rows) @ rest)
                = import_lines s1 project (map Row rows @ rest)"
    by (simp add: r s1_def)
  show ?case
  proof (rule exI [of _ "d # new"], intro conjI)
    show "length (d # new) = length (r # rows)" using new(1) by simp
    show "map d_text (d # new) = map hd (r # rows)" using new(2) by (simp add: d_def r)
    show "\<forall>x\<in>set (d # new). d_project x = p_id project" using new(3) by (simp add: d_def)
    show "import_lines s project (map Row (r # rows) @ rest)
            = import_lines (s\<lparr>documents := documents s @ d # new\<rparr>) project rest"
      using step new(4) upd by simp
  qed
qed

lemma import_lines_fails_at:
  "bad = Row [] \<or> bad = Raises \<Longrightarrow> \<exists>e. import_lines s project (bad # rest) = (s, Inl e)"
  by auto

lemma import_lines_result:
  "(\<exists>s'. import_lines s project reader = (s', Inr ())) \<longleftrightarrow>
   (\<forall>item\<in>set reader. \<exists>text cols. item = Row (text # cols))"
proof (induction s project reader rule: import_lines.induct)
  case (1 s project)
  show ?case by simp
next
  case (2 s project rest)
  show ?case by simp
next
  case (3 s project line rest)
  show ?case
  proof (cases line)
    case Nil
    then show ?thesis by simp
  next
    case (Cons t cols)
    with 3 show ?thesis by simp
  qed
qed

text \<open>
  C1, amended. When the project exists and every row of the uploaded CSV has at least one
  column, the import creates one Document per row, in order, after the documents that were
  there: the text of the i-th new Document is column 0 of the i-th row and its project is
  the target project. Nothing else in the database changes, and the response is the
  redirect to the dataset page.
\<close>

theorem upload_creates_document_per_row:
  assumes "get_object_or_404 p_id (projects s) project_id = Inr project"
    and "\<forall>r\<in>set rows. r \<noteq> []"
  shows "\<exists>new. DatasetUpload_post s (Some (map Row rows)) project_id
                 = (s\<lparr>documents := documents s @ new\<rparr>,
                    Inr (HttpResponseRedirect ''dataset'' [project_id]))
               \<and> length new = length rows
               \<and> (\<forall>i<length rows. d_text (new ! i) = rows ! i ! 0
                                   \<and> d_project (new ! i) = project_id)"
proof -
  have pid: "p_id project = project_id"
    using assms(1) by (simp add: get_object_or_404_found)
  from import_lines_rows [OF assms(2), of project s "[]"] obtain new where
    new: "length new = length rows" "map d_text new = map hd rows"
      "\<forall>d\<in>set new. d_project d = p_id project"
      "import_lines s project (map Row rows)
         = (s\<lparr>documents := documents s @ new\<rparr>, Inr ())"
    by auto
  have "d_text (new ! i) = rows ! i ! 0 \<and> d_project (new ! i) = project_id"
    if "i < length rows" for i
  proof -
    from that new(1) have i: "i < length new" by simp
    have "d_text (new ! i) = map d_text new ! i" using i by simp
    also have "\<dots> = hd (rows ! i)" using that new(2) by simp
    also have "\<dots> = rows ! i ! 0"
      using assms(2) that by (simp add: hd_conv_nth)
    finally show ?thesis using new(3) i pid by simp
  qed
  moreover have "DatasetUpload_post s (Some (map Row rows)) project_id
          = (s\<lparr>documents := documents s @ new\<rparr>,
             Inr (HttpResponseRedirect ''dataset'' [project_id]))"
    using assms(1) new(4) pid by (simp add: DatasetUpload_post_def)
  ultimately show ?thesis using new(1) by blast
qed

theorem upload_creates_document_per_row_witness:
  "DatasetUpload_post example_db (Some [Row [''a'', ''x''], Row [''b'']]) 1
     = (example_db\<lparr>documents := documents example_db @
          [\<lparr>d_id = 5, d_text = ''a'', d_project = 1\<rparr>,
           \<lparr>d_id = 6, d_text = ''b'', d_project = 1\<rparr>]\<rparr>,
        Inr (HttpResponseRedirect ''dataset'' [1]))"
proof -
  have rows: "\<forall>r\<in>set [[''a'', ''x''], [''b'']]. r \<noteq> []"
    by simp
  from upload_creates_document_per_row [OF example_project_1 rows] obtain new where
    post: "DatasetUpload_post example_db (Some (map Row [[''a'', ''x''], [''b'']])) 1
             = (example_db\<lparr>documents := documents example_db @ new\<rparr>,
                Inr (HttpResponseRedirect ''dataset'' [1]))"
    by blast
  have "documents (fst (DatasetUpload_post example_db
                          (Some (map Row [[''a'', ''x''], [''b'']])) 1))
          = documents example_db @
              [\<lparr>d_id = 5, d_text = ''a'', d_project = 1\<rparr>,
               \<lparr>d_id = 6, d_text = ''b'', d_project = 1\<rparr>]"
    unfolding DatasetUpload_post_def example_project_1
    by (simp add: Document_save_def next_id_def) (simp add: example_db_def)
  with post have "new = [\<lparr>d_id = 5, d_text = ''a'', d_project = 1\<rparr>,
                         \<lparr>d_id = 6, d_text = ''b'', d_project = 1\<rparr>]"
    by simp
  with post show ?thesis by simp
qed

text \<open>
  A CSV of three rows whose second row is a blank line: one Document is created, not
  three, and the response is the redirect to the upload form.
\<close>

theorem upload_blank_line_counterexample:
  "length (documents (fst (DatasetUpload_post example_db
                             (Some [Row [''a''], Row [], Row [''b'']]) 1)))
     = length (documents example_db) + 1
   \<and> length [Row [''a''], Row [], Row [''b'']] = 3
   \<and> snd (DatasetUpload_post example_db (Some [Row [''a''], Row [], Row [''b'']]) 1)
       = Inr (HttpResponseRedirect ''dataset-upload'' [1])"
  unfolding DatasetUpload_post_def example_project_1
  by (simp add: Document_save_def)

text \<open>
  C5. For an existing project the response of the handler is a redirect in every case: to
  the dataset page when the request has the file and every item the reader yields is a row
  with at least one column, and to the upload form in every other case (no file, an
  exception of the decoder or the reader, an empty row), whatever the exception was.
\<close>

theorem upload_redirects:
  assumes "get_object_or_404 p_id (projects s) project_id = Inr project"
  shows "snd (DatasetUpload_post s csv_file project_id)
           = Inr (HttpResponseRedirect
                    (if \<exists>reader. csv_file = Some reader \<and>
                          (\<forall>item\<in>set reader. \<exists>text cols. item = Row (text # cols))
                     then ''dataset'' else ''dataset-upload'')
                    [project_id])"
proof -
  have pid: "p_id project = project_id"
    using assms by (simp add: get_object_or_404_found)
  show ?thesis
  proof (cases csv_file)
    case None
    then show ?thesis using assms pid by (simp add: DatasetUpload_post_def)
  next
    case (Some reader)
    obtain s' r where res: "import_lines s project reader = (s', r)"
      by (cases "import_lines s project reader")
    show ?thesis
    proof (cases r)
      case (Inl e)
      with res have "\<not> (\<exists>s'. import_lines s project reader = (s', Inr ()))" by simp
      then have "\<not> (\<forall>item\<in>set reader. \<exists>text cols. item = Row (text # cols))"
        using import_lines_result [of s project reader] by blast
      then show ?thesis
        using assms pid Some res Inl by (simp add: DatasetUpload_post_def)
    next
      case (Inr u)
      with res have "\<exists>s'. import_lines s project reader = (s', Inr ())" by simp
      then have "\<forall>item\<in>set reader. \<exists>text cols. item = Row (text # cols)"
        using import_lines_result [of s project reader] by blast
      then show ?thesis
        using assms pid Some res Inr by (simp add: DatasetUpload_post_def)
    qed
  qed
qed

theorem upload_redirects_witness:
  "snd (DatasetUpload_post example_db (Some [Row [''a''], Row [''b'']]) 1)
     = Inr (HttpResponseRedirect ''dataset'' [1])
   \<and> snd (DatasetUpload_post example_db (Some [Row [''a''], Raises]) 1)
     = Inr (HttpResponseRedirect ''dataset-upload'' [1])
   \<and> snd (DatasetUpload_post example_db (Some [Row []]) 1)
     = Inr (HttpResponseRedirect ''dataset-upload'' [1])
   \<and> snd (DatasetUpload_post example_db None 1)
     = Inr (HttpResponseRedirect ''dataset-upload'' [1])"
  using upload_redirects [OF example_project_1, of "Some [Row [''a''], Row [''b'']]"]
    upload_redirects [OF example_project_1, of "Some [Row [''a''], Raises]"]
    upload_redirects [OF example_project_1, of "Some [Row []]"]
    upload_redirects [OF example_project_1, of None]
  by simp

text \<open>
  C10. The import is not atomic. When the first k rows of the CSV have at least one column
  and the next item is an empty row or an exception of the reader, the database after the
  request holds exactly the k Documents of the rows before the failure, appended to the
  documents that were there, and the response is the redirect to the upload form.
\<close>

theorem upload_keeps_documents_before_failure:
  assumes "get_object_or_404 p_id (projects s) project_id = Inr project"
    and "\<forall>r\<in>set rows. r \<noteq> []"
    and "bad = Row [] \<or> bad = Raises"
  shows "\<exists>new. DatasetUpload_post s (Some (map Row rows @ bad # rest)) project_id
                 = (s\<lparr>documents := documents s @ new\<rparr>,
                    Inr (HttpResponseRedirect ''dataset-upload'' [project_id]))
               \<and> length new = length rows
               \<and> map d_text new = map hd rows
               \<and> (\<forall>d\<in>set new. d_project d = project_id)"
proof -
  have pid: "p_id project = project_id"
    using assms(1) by (simp add: get_object_or_404_found)
  from import_lines_rows [OF assms(2), of project s "bad # rest"] obtain new where
    new: "length new = length rows" "map d_text new = map hd rows"
      "\<forall>d\<in>set new. d_project d = p_id project"
      "import_lines s project (map Row rows @ bad # rest)
         = import_lines (s\<lparr>documents := documents s @ new\<rparr>) project (bad # rest)"
    by blast
  from import_lines_fails_at [OF assms(3)] obtain e where
    "import_lines (s\<lparr>documents := documents s @ new\<rparr>) project (bad # rest)
       = (s\<lparr>documents := documents s @ new\<rparr>, Inl e)"
    by blast
  with new(4) have "DatasetUpload_post s (Some (map Row rows @ bad # rest)) project_id
          = (s\<lparr>documents := documents s @ new\<rparr>,
             Inr (HttpResponseRedirect ''dataset-upload'' [project_id]))"
    using assms(1) pid by (simp add: DatasetUpload_post_def)
  then show ?thesis using new(1,2,3) pid by blast
qed

theorem upload_keeps_documents_before_failure_witness:
  "DatasetUpload_post example_db (Some [Row [''a''], Row [], Row [''b'']]) 1
     = (example_db\<lparr>documents := documents example_db @
          [\<lparr>d_id = 5, d_text = ''a'', d_project = 1\<rparr>]\<rparr>,
        Inr (HttpResponseRedirect ''dataset-upload'' [1]))"
proof -
  have rows: "\<forall>r\<in>set [[''a'']]. r \<noteq> []"
    by simp
  have bad: "Row [] = Row [] \<or> Row [] = Raises"
    by simp
  from upload_keeps_documents_before_failure [OF example_project_1 rows bad, of "[Row [''b'']]"]
  obtain new where
    post: "DatasetUpload_post example_db (Some (map Row [[''a'']] @ Row [] # [Row [''b'']])) 1
             = (example_db\<lparr>documents := documents example_db @ new\<rparr>,
                Inr (HttpResponseRedirect ''dataset-upload'' [1]))"
    by blast
  have "documents (fst (DatasetUpload_post example_db
                          (Some (map Row [[''a'']] @ Row [] # [Row [''b'']])) 1))
          = documents example_db @ [\<lparr>d_id = 5, d_text = ''a'', d_project = 1\<rparr>]"
    unfolding DatasetUpload_post_def example_project_1
    by (simp add: Document_save_def next_id_def) (simp add: example_db_def)
  with post have "new = [\<lparr>d_id = 5, d_text = ''a'', d_project = 1\<rparr>]"
    by simp
  with post show ?thesis by simp
qed

section \<open>Progress: the claim\<close>

lemma get_object_found:
  assumes "ProjectViewSet_get_object s user pk = Inr project"
  shows "p_id project = pk \<and> project \<in> set (projects s)"
proof -
  from assms have "[p \<leftarrow> ProjectViewSet_get_queryset s user. p_id p = pk] = [project]"
    by (simp add: ProjectViewSet_get_object_def split: list.splits)
  then have "project \<in> set [p \<leftarrow> ProjectViewSet_get_queryset s user. p_id p = pk]"
    by simp
  then show ?thesis
    by (auto simp: ProjectViewSet_get_queryset_def)
qed

lemma str_nat_1: "str_nat (Suc 0) = [char_of (49::nat)]"
  by (subst str_nat.simps) simp

lemma str_nat_11: "str_nat 11 = [char_of (49::nat), char_of (49::nat)]"
  by (subst str_nat.simps) (simp add: str_nat_1)

lemma members_db_queryset:
  "ProjectViewSet_get_queryset members_db alice
     = [\<lparr>p_id = 1, p_name = ''news'', p_type = DOCUMENT_CLASSIFICATION\<rparr>,
        \<lparr>p_id = 1, p_name = ''news'', p_type = DOCUMENT_CLASSIFICATION\<rparr>,
        \<lparr>p_id = 2, p_name = ''reviews'', p_type = DOCUMENT_CLASSIFICATION\<rparr>]"
  by (simp add: ProjectViewSet_get_queryset_def members_db_def alice_def
      str_nat_1 str_nat_11)

text \<open>
  C4. Alice is a member of project 1 of the second database: \<^verbatim>\<open>IsProjectUser\<close> grants
  the access. The request of Alice for the progress of project 1 gets no response
  \<open>{total, remaining}\<close>: the filter \<^verbatim>\<open>users__id__contains\<close> of the view's queryset
  matches the key 1 of Alice in the row of Alice in the many-to-many table and in the row
  of Carol, whose key is 11, the queryset holds the project twice and \<^verbatim>\<open>get_object\<close>
  raises MultipleObjectsReturned. This is so whatever \<^verbatim>\<open>Project.get_documents\<close> returns.
\<close>

theorem progress_of_member_raises:
  "IsProjectUser members_db (Some alice) 1 = Inr True
   \<and> ProjectViewSet_progress get_documents members_db alice 1 = Inl MultipleObjectsReturned"
proof -
  have "IsProjectUser members_db (Some alice) 1 = Inr True"
    by (simp add: IsProjectUser_def get_object_or_404_def project_users_all_def user_in_def
        members_db_def alice_def carol_def)
  moreover have "ProjectViewSet_get_object members_db alice 1 = Inl MultipleObjectsReturned"
    by (simp add: ProjectViewSet_get_object_def members_db_queryset)
  ultimately show ?thesis
    by (simp add: ProjectViewSet_progress_def)
qed

text \<open>The same filter finds project 2 for Alice, who is no member of it.\<close>

lemma get_object_for_non_member:
  "IsProjectUser members_db (Some alice) 2 = Inr False
   \<and> ProjectViewSet_get_object members_db alice 2
       = Inr \<lparr>p_id = 2, p_name = ''reviews'', p_type = DOCUMENT_CLASSIFICATION\<rparr>"
proof -
  have "IsProjectUser members_db (Some alice) 2 = Inr False"
    by (simp add: IsProjectUser_def get_object_or_404_def project_users_all_def user_in_def
        members_db_def alice_def carol_def)
  moreover have "ProjectViewSet_get_object members_db alice 2
       = Inr \<lparr>p_id = 2, p_name = ''reviews'', p_type = DOCUMENT_CLASSIFICATION\<rparr>"
    by (simp add: ProjectViewSet_get_object_def members_db_queryset)
  ultimately show ?thesis
    by simp
qed

text \<open>When \<^verbatim>\<open>get_object\<close> does find the project, \<open>total\<close> is the number of documents of
  the project and \<open>remaining\<close> the number of documents that \<^verbatim>\<open>get_documents(is_null=True)\<close>
  returns.\<close>

lemma progress_total:
  assumes "ProjectViewSet_get_object s user pk = Inr project"
  shows "ProjectViewSet_progress get_documents s user pk
           = Inr \<lparr>total = length [d \<leftarrow> documents s. d_project d = pk],
                  remaining = length (get_documents s project True)\<rparr>"
proof -
  have pid: "p_id project = pk"
    using assms by (simp add: get_object_found)
  show ?thesis
    using assms by (simp add: ProjectViewSet_progress_def project_documents_all_def pid)
qed

section \<open>Creating annotations: the claim\<close>

lemma post_document_classification:
  assumes "get_object_or_404 d_id (documents s) doc_id = Inr doc"
    and "get_object_or_404 p_id (projects s) project_id = Inr project"
    and "p_type project = DOCUMENT_CLASSIFICATION"
  shows "AnnotationsAPI_post s user project_id doc_id data =
     (case rd_label_id data of
        None \<Rightarrow> (s, Inl KeyError)
      | Some label_id \<Rightarrow>
          (case find (\<lambda>l. l_id l = label_id) (labels s) of
             None \<Rightarrow> (s, Inl Http404)
           | Some label \<Rightarrow>
               (s\<lparr>annotations := annotations s @
                    [DocumentAnnotation
                       (next_id (map a_id (annotation_objects s DOCUMENT_CLASSIFICATION)))
                       doc_id (l_id label) True (u_id user)]\<rparr>,
                Inr (Serialized DocumentAnnotationSerializer
                  (DocumentAnnotation
                     (next_id (map a_id (annotation_objects s DOCUMENT_CLASSIFICATION)))
                     doc_id (l_id label) True (u_id user))))))"
proof -
  have "d_id doc = doc_id"
    using assms(1) by (simp add: get_object_or_404_found)
  then show ?thesis
    using assms
    by (simp add: AnnotationsAPI_post_def is_type_of_def Annotation_insert_def Let_def
        data_get_def get_annotation_serializer_def get_object_or_404_def
        split: option.splits)
qed

lemma post_sequence_labeling:
  assumes "get_object_or_404 d_id (documents s) doc_id = Inr doc"
    and "get_object_or_404 p_id (projects s) project_id = Inr project"
    and "p_type project = SEQUENCE_LABELING"
  shows "AnnotationsAPI_post s user project_id doc_id data =
     (case rd_label_id data of
        None \<Rightarrow> (s, Inl KeyError)
      | Some label_id \<Rightarrow>
          (case find (\<lambda>l. l_id l = label_id) (labels s) of
             None \<Rightarrow> (s, Inl Http404)
           | Some label \<Rightarrow>
               (case rd_start_offset data of
                  None \<Rightarrow> (s, Inl KeyError)
                | Some so \<Rightarrow>
                    (case rd_end_offset data of
                       None \<Rightarrow> (s, Inl KeyError)
                     | Some eo \<Rightarrow>
                         (s\<lparr>annotations := annotations s @
                              [SequenceAnnotation
                                 (next_id (map a_id (annotation_objects s SEQUENCE_LABELING)))
                                 doc_id (l_id label) True (u_id user) so eo]\<rparr>,
                          Inr (Serialized SequenceAnnotationSerializer
                            (SequenceAnnotation
                               (next_id (map a_id (annotation_objects s SEQUENCE_LABELING)))
                               doc_id (l_id label) True (u_id user) so eo)))))))"
proof -
  have "d_id doc = doc_id"
    using assms(1) by (simp add: get_object_or_404_found)
  then show ?thesis
    using assms
    by (simp add: AnnotationsAPI_post_def is_type_of_def Annotation_insert_def Let_def
        data_get_def get_annotation_serializer_def get_object_or_404_def
        split: option.splits)
qed

lemma post_seq2seq:
  assumes "get_object_or_404 d_id (documents s) doc_id = Inr doc"
    and "get_object_or_404 p_id (projects s) project_id = Inr project"
    and "p_type project = Seq2seq"
  shows "AnnotationsAPI_post s user project_id doc_id data =
     (case rd_text data of
        None \<Rightarrow> (s, Inl KeyError)
      | Some t \<Rightarrow>
          (s\<lparr>annotations := annotations s @
               [Seq2seqAnnotation (next_id (map a_id (annotation_objects s Seq2seq)))
                  doc_id t True (u_id user)]\<rparr>,
           Inr (Serialized Seq2seqAnnotationSerializer
             (Seq2seqAnnotation (next_id (map a_id (annotation_objects s Seq2seq)))
                doc_id t True (u_id user)))))"
proof -
  have "d_id doc = doc_id"
    using assms(1) by (simp add: get_object_or_404_found)
  then show ?thesis
    using assms
    by (simp add: AnnotationsAPI_post_def is_type_of_def Annotation_insert_def Let_def
        data_get_def get_annotation_serializer_def
        split: option.splits)
qed

text \<open>
  C2. An annotation that \<^verbatim>\<open>AnnotationsAPI.post\<close> creates in a project is of the subtype
  of the project's type, is serialized by the serializer of the project's type, has the
  requesting user as author and the manual flag set, is attached to the document of the
  request and is the one row added to the database. In a sequence labeling project its
  offsets are the request's \<open>start_offset\<close> and \<open>end_offset\<close>, in a seq2seq project its
  text is the request's \<open>text\<close>, and in the other two its label is the request's
  \<open>label_id\<close>.
\<close>

theorem post_annotation_follows_project_type:
  assumes "get_object_or_404 p_id (projects s) project_id = Inr project"
    and "AnnotationsAPI_post s user project_id doc_id data = (s', Inr (Serialized sc annotation))"
  shows "annotation_class annotation = p_type project
       \<and> a_user annotation = u_id user
       \<and> a_manual annotation
       \<and> a_document annotation = doc_id
       \<and> sc = get_annotation_serializer project
       \<and> s' = s\<lparr>annotations := annotations s @ [annotation]\<rparr>
       \<and> (p_type project = SEQUENCE_LABELING \<longrightarrow>
            rd_start_offset data = Some (a_start_offset annotation) \<and>
            rd_end_offset data = Some (a_end_offset annotation))
       \<and> (p_type project = Seq2seq \<longrightarrow> rd_text data = Some (a_text annotation))
       \<and> (p_type project \<noteq> Seq2seq \<longrightarrow> rd_label_id data = Some (a_label_id annotation))"
proof -
  from assms(2) obtain doc where doc: "get_object_or_404 d_id (documents s) doc_id = Inr doc"
    by (cases "get_object_or_404 d_id (documents s) doc_id")
      (simp_all add: AnnotationsAPI_post_def)
  show ?thesis
  proof (cases "p_type project")
    case DOCUMENT_CLASSIFICATION
    from assms(2) show ?thesis
      unfolding post_document_classification [OF doc assms(1) DOCUMENT_CLASSIFICATION]
      using DOCUMENT_CLASSIFICATION
      by (auto simp: get_annotation_serializer_def split: option.splits dest: find_SomeD)
  next
    case SEQUENCE_LABELING
    from assms(2) show ?thesis
      unfolding post_sequence_labeling [OF doc assms(1) SEQUENCE_LABELING]
      using SEQUENCE_LABELING
      by (auto simp: get_annotation_serializer_def split: option.splits dest: find_SomeD)
  next
    case Seq2seq
    from assms(2) show ?thesis
      unfolding post_seq2seq [OF doc assms(1) Seq2seq]
      using Seq2seq
      by (auto simp: get_annotation_serializer_def split: option.splits)
  qed
qed

theorem post_annotation_follows_project_type_witness:
  "AnnotationsAPI_post example_db bob 3 4
      \<lparr>rd_label_id = Some 3, rd_start_offset = Some 0, rd_end_offset = Some 3,
        rd_text = None, rd_id = None\<rparr>
     = (example_db\<lparr>annotations := annotations example_db @
                      [SequenceAnnotation 1 4 3 True 2 0 3]\<rparr>,
        Inr (Serialized SequenceAnnotationSerializer (SequenceAnnotation 1 4 3 True 2 0 3)))
   \<and> annotation_class (SequenceAnnotation 1 4 3 True 2 0 3) = SEQUENCE_LABELING
   \<and> a_user (SequenceAnnotation 1 4 3 True 2 0 3) = u_id bob
   \<and> a_manual (SequenceAnnotation 1 4 3 True 2 0 3)"
proof -
  have run: "AnnotationsAPI_post example_db bob 3 4
      \<lparr>rd_label_id = Some 3, rd_start_offset = Some 0, rd_end_offset = Some 3,
        rd_text = None, rd_id = None\<rparr>
     = (example_db\<lparr>annotations := annotations example_db @
                      [SequenceAnnotation 1 4 3 True 2 0 3]\<rparr>,
        Inr (Serialized SequenceAnnotationSerializer (SequenceAnnotation 1 4 3 True 2 0 3)))"
    by code_simp
  from post_annotation_follows_project_type [OF example_project_3 run] run
  show ?thesis by simp
qed

text \<open>The handler creates an annotation whenever the document, the project and, for the
  two types that have one, the label exist and the request has the keys of the type.\<close>

lemma AnnotationsAPI_post_succeeds:
  assumes "get_object_or_404 p_id (projects s) project_id = Inr project"
    and "get_object_or_404 d_id (documents s) doc_id = Inr doc"
    and "p_type project \<noteq> Seq2seq \<longrightarrow> (\<exists>l\<in>set (labels s). rd_label_id data = Some (l_id l))"
    and "p_type project = SEQUENCE_LABELING \<longrightarrow>
           rd_start_offset data \<noteq> None \<and> rd_end_offset data \<noteq> None"
    and "p_type project = Seq2seq \<longrightarrow> rd_text data \<noteq> None"
  shows "\<exists>s' annotation. AnnotationsAPI_post s user project_id doc_id data
           = (s', Inr (Serialized (get_annotation_serializer project) annotation))"
proof (cases "p_type project")
  case DOCUMENT_CLASSIFICATION
  with assms(3) obtain l where l: "l \<in> set (labels s)" "rd_label_id data = Some (l_id l)"
    by auto
  then obtain label where "get_object_or_404 l_id (labels s) (l_id l) = Inr label"
    by (cases "get_object_or_404 l_id (labels s) (l_id l)")
      (auto simp: get_object_or_404_Inl)
  with assms(1,2) l DOCUMENT_CLASSIFICATION show ?thesis
    by (simp add: AnnotationsAPI_post_def is_type_of_def Annotation_insert_def Let_def
        data_get_def)
next
  case SEQUENCE_LABELING
  with assms(3) obtain l where l: "l \<in> set (labels s)" "rd_label_id data = Some (l_id l)"
    by auto
  then obtain label where "get_object_or_404 l_id (labels s) (l_id l) = Inr label"
    by (cases "get_object_or_404 l_id (labels s) (l_id l)")
      (auto simp: get_object_or_404_Inl)
  moreover from assms(4) SEQUENCE_LABELING obtain so eo where
    "rd_start_offset data = Some so" "rd_end_offset data = Some eo"
    by auto
  ultimately show ?thesis
    using assms(1,2) l SEQUENCE_LABELING
    by (simp add: AnnotationsAPI_post_def is_type_of_def Annotation_insert_def Let_def
        data_get_def)
next
  case Seq2seq
  with assms(5) obtain t where "rd_text data = Some t"
    by auto
  with assms(1,2) Seq2seq show ?thesis
    by (simp add: AnnotationsAPI_post_def is_type_of_def Annotation_insert_def Let_def
        data_get_def)
qed

section \<open>Statistics: the claim\<close>

lemma Counter_fold:
  "fold (\<lambda>x c. c(x := c x + 1)) xs c0 k = c0 k + count_list xs k"
  by (induction xs arbitrary: c0) auto

lemma Counter_count_list: "Counter xs k = count_list xs k"
  unfolding Counter_def Counter_fold by simp

lemma comprehension_Inr:
  "comprehension f xs = Inr ys \<Longrightarrow> map Inr ys = map f xs"
proof (induction xs arbitrary: ys)
  case Nil
  then show ?case by simp
next
  case (Cons x xs)
  then show ?case
    by (auto split: sum.splits)
qed

lemma comprehension_nested:
  "comprehension (\<lambda>x. comprehension f (g x)) xs = Inr yss \<Longrightarrow>
   map Inr (concat yss) = map f (concat (map g xs))"
proof (induction xs arbitrary: yss)
  case Nil
  then show ?case by simp
next
  case (Cons x xs)
  from Cons.prems obtain ys yss' where
    ys: "comprehension f (g x) = Inr ys"
    and yss': "comprehension (\<lambda>x. comprehension f (g x)) xs = Inr yss'"
    and yss: "yss = ys # yss'"
    by (auto split: sum.splits)
  from ys have "map Inr ys = map f (g x)"
    by (rule comprehension_Inr)
  with Cons.IH [OF yss'] yss show ?case
    by simp
qed

lemma count_of_results:
  "map Inr ys = map f xs \<Longrightarrow>
   length (filter (\<lambda>y. y = k) ys) = length (filter (\<lambda>x. f x = Inr k) xs)"
proof (induction ys arbitrary: xs)
  case Nil
  then show ?case by simp
next
  case (Cons y ys)
  from Cons.prems obtain x xs' where xs: "xs = x # xs'" "f x = Inr y" "map Inr ys = map f xs'"
    by (cases xs) auto
  from Cons.IH [OF xs(3)] xs(1,2) show ?case
    by auto
qed

lemma Counter_of_results:
  assumes "map Inr ys = map f xs"
  shows "Counter ys k = length [x \<leftarrow> xs. f x = Inr k]"
proof -
  have "filter ((=) k) ys = filter (\<lambda>y. y = k) ys"
    by (rule filter_cong) auto
  then have "Counter ys k = length (filter (\<lambda>y. y = k) ys)"
    by (simp add: Counter_count_list count_list_eq_length_filter)
  with count_of_results [OF assms, of k] show ?thesis by simp
qed

text \<open>
  C3. The statistics of a seq2seq project that has an annotation are no response of the
  shape the claim gives: reading \<^verbatim>\<open>a.label\<close> of a Seq2seqAnnotation raises
  AttributeError. In the example database project 2 is such a project.
\<close>

theorem stats_of_seq2seq_project_raises:
  "ProjectStatsAPI_get example_db 2 = Inl AttributeError"
  by code_simp

text \<open>Whenever the handler does answer, the response is the one of the claim: the label
  texts and the member usernames of the project, and for each of them the number of
  annotations of the project's documents with that label text or that author.\<close>

lemma stats_counts:
  assumes "ProjectStatsAPI_get s project_id = Inr r"
  shows "\<exists>p. get_object_or_404 p_id (projects s) project_id = Inr p
     \<and> ls_labels (r_label r) = map l_text (project_labels_all s p)
     \<and> us_users (r_user r) = map username (project_users_all s p)
     \<and> ls_data (r_label r) =
         map (\<lambda>name. length [a \<leftarrow> concat (map (get_annotations s) (project_documents_all s p)).
                          annotation_label_text s a = Inr name])
           (ls_labels (r_label r))
     \<and> us_data (r_user r) =
         map (\<lambda>name. length [a \<leftarrow> concat (map (get_annotations s) (project_documents_all s p)).
                          annotation_user_username s a = Inr name])
           (us_users (r_user r))"
proof -
  from assms obtain p where p: "get_object_or_404 p_id (projects s) project_id = Inr p"
    by (cases "get_object_or_404 p_id (projects s) project_id")
      (simp_all add: ProjectStatsAPI_get_def)
  define docs where "docs = project_documents_all s p"
  from assms p obtain nested_labels where
    nl: "comprehension (\<lambda>doc. comprehension (annotation_label_text s) (get_annotations s doc))
           docs = Inr nested_labels"
    by (cases "comprehension
                 (\<lambda>doc. comprehension (annotation_label_text s) (get_annotations s doc)) docs")
      (simp_all add: ProjectStatsAPI_get_def docs_def Let_def)
  from assms p nl obtain nested_users where
    nu: "comprehension (\<lambda>doc. comprehension (annotation_user_username s) (get_annotations s doc))
           docs = Inr nested_users"
    by (cases "comprehension
                 (\<lambda>doc. comprehension (annotation_user_username s) (get_annotations s doc)) docs")
      (simp_all add: ProjectStatsAPI_get_def docs_def Let_def)
  have r: "r = \<lparr>r_label = \<lparr>ls_labels = map l_text (project_labels_all s p),
                           ls_data = map (Counter (concat nested_labels))
                                       (map l_text (project_labels_all s p))\<rparr>,
                r_user = \<lparr>us_users = map username (project_users_all s p),
                          us_data = map (Counter (concat nested_users))
                                      (map username (project_users_all s p))\<rparr>\<rparr>"
    using assms p nl nu by (simp add: ProjectStatsAPI_get_def docs_def Let_def)
  have cl: "Counter (concat nested_labels) name
              = length [a \<leftarrow> concat (map (get_annotations s) docs).
                          annotation_label_text s a = Inr name]" for name
    by (rule Counter_of_results) (rule comprehension_nested [OF nl])
  have cu: "Counter (concat nested_users) name
              = length [a \<leftarrow> concat (map (get_annotations s) docs).
                          annotation_user_username s a = Inr name]" for name
    by (rule Counter_of_results) (rule comprehension_nested [OF nu])
  show ?thesis
    using p by (simp add: r cl cu docs_def)
qed

text \<open>It answers when every annotation of the project's documents has a label, and the
  label and the author are rows of the database.\<close>

lemma comprehension_succeeds:
  "\<forall>x\<in>set xs. \<exists>y. f x = Inr y \<Longrightarrow> \<exists>ys. comprehension f xs = Inr ys"
proof (induction xs)
  case Nil
  show ?case by simp
next
  case (Cons x xs)
  then obtain y ys where "f x = Inr y" "comprehension f xs = Inr ys"
    by auto
  then show ?case by simp
qed

lemma objects_get_succeeds:
  "pk \<in> key ` set rows \<Longrightarrow> \<exists>r. objects_get key rows pk = Inr r"
  by (cases "find (\<lambda>r. key r = pk) rows") (auto simp: objects_get_def find_None_iff)

lemma stats_succeeds:
  assumes p: "get_object_or_404 p_id (projects s) project_id = Inr p"
    and anns: "\<forall>d\<in>set (project_documents_all s p). \<forall>a\<in>set (get_annotations s d).
                 annotation_class a \<noteq> Seq2seq \<and> a_label_id a \<in> l_id ` set (labels s) \<and>
                 a_user a \<in> u_id ` set (users s)"
  shows "\<exists>r. ProjectStatsAPI_get s project_id = Inr r"
proof -
  have label_text: "\<exists>y. annotation_label_text s a = Inr y"
    if "annotation_class a \<noteq> Seq2seq" "a_label_id a \<in> l_id ` set (labels s)" for a
  proof -
    from objects_get_succeeds [OF that(2)] obtain l where
      "objects_get l_id (labels s) (a_label_id a) = Inr l" ..
    with that(1) show ?thesis by (cases a) simp_all
  qed
  have user_name: "\<exists>y. annotation_user_username s a = Inr y"
    if "a_user a \<in> u_id ` set (users s)" for a
  proof -
    from objects_get_succeeds [OF that] obtain u where
      "objects_get u_id (users s) (a_user a) = Inr u" ..
    then show ?thesis by (simp add: annotation_user_username_def)
  qed
  have "\<exists>ys. comprehension (annotation_label_text s) (get_annotations s d) = Inr ys"
    if d: "d \<in> set (project_documents_all s p)" for d
  proof (rule comprehension_succeeds, rule ballI)
    fix a assume "a \<in> set (get_annotations s d)"
    with anns d have "annotation_class a \<noteq> Seq2seq" "a_label_id a \<in> l_id ` set (labels s)"
      by simp_all
    then show "\<exists>y. annotation_label_text s a = Inr y" by (rule label_text)
  qed
  then have "\<forall>d\<in>set (project_documents_all s p).
      \<exists>ys. comprehension (annotation_label_text s) (get_annotations s d) = Inr ys"
    by simp
  from comprehension_succeeds [OF this] obtain nested_labels where
    nl: "comprehension (\<lambda>doc. comprehension (annotation_label_text s) (get_annotations s doc))
           (project_documents_all s p) = Inr nested_labels" ..
  have "\<exists>ys. comprehension (annotation_user_username s) (get_annotations s d) = Inr ys"
    if d: "d \<in> set (project_documents_all s p)" for d
  proof (rule comprehension_succeeds, rule ballI)
    fix a assume "a \<in> set (get_annotations s d)"
    with anns d have "a_user a \<in> u_id ` set (users s)"
      by simp
    then show "\<exists>y. annotation_user_username s a = Inr y" by (rule user_name)
  qed
  then have "\<forall>d\<in>set (project_documents_all s p).
      \<exists>ys. comprehension (annotation_user_username s) (get_annotations s d) = Inr ys"
    by simp
  from comprehension_succeeds [OF this] obtain nested_users where
    nu: "comprehension (\<lambda>doc. comprehension (annotation_user_username s) (get_annotations s doc))
           (project_documents_all s p) = Inr nested_users" ..
  show ?thesis
    using p nl nu by (simp add: ProjectStatsAPI_get_def Let_def)
qed

lemma stats_example:
  "ProjectStatsAPI_get example_db 1
     = Inr \<lparr>r_label = \<lparr>ls_labels = [''positive'', ''negative''], ls_data = [1, 0]\<rparr>,
            r_user = \<lparr>us_users = [''alice''], us_data = [1]\<rparr>\<rparr>"
  by code_simp

section \<open>Updating annotations: the claim\<close>

text \<open>
  C9. A PUT request of a project member for an annotation of their own in a document
  classification project passes the permission classes and then raises
  UnboundLocalError: no annotation is updated and no serialized annotation is returned.
\<close>

theorem put_in_classification_project_raises:
  "AnnotationAPI_dispatch_put example_db (Some alice) 1 1 1
      \<lparr>rd_label_id = Some 2, rd_start_offset = None, rd_end_offset = None,
        rd_text = None, rd_id = Some 1\<rparr>
     = (example_db, Inl UnboundLocalError)"
  by code_simp

text \<open>The same holds for every project that is not a seq2seq project; in a seq2seq
  project the handler updates the text of the annotation named in the request's data.\<close>

lemma put_other_project_types_raise:
  assumes "get_object_or_404 d_id (documents s) doc_id = Inr doc"
    and "get_object_or_404 p_id (projects s) project_id = Inr project"
    and "p_type project \<noteq> Seq2seq"
  shows "AnnotationAPI_put s user project_id doc_id data = (s, Inl UnboundLocalError)"
  using assms by (simp add: AnnotationAPI_put_def is_type_of_def)

lemma put_seq2seq_updates:
  assumes "get_object_or_404 d_id (documents s) doc_id = Inr doc"
    and "get_object_or_404 p_id (projects s) project_id = Inr project"
    and "p_type project = Seq2seq"
    and "rd_text data = Some t"
    and "rd_id data = Some pk"
    and "get_object_or_404 a_id (annotation_objects s Seq2seq) pk = Inr fetched"
  shows "AnnotationAPI_put s user project_id doc_id data
           = (Annotation_update s (set_text t fetched),
              Inr (Serialized Seq2seqAnnotationSerializer (set_text t fetched)))"
  using assms
  by (simp add: AnnotationAPI_put_def is_type_of_def data_get_def
      get_annotation_serializer_def Let_def)

lemma put_seq2seq_example:
  "AnnotationAPI_dispatch_put example_db (Some alice) 2 3 1
      \<lparr>rd_label_id = None, rd_start_offset = None, rd_end_offset = None,
        rd_text = Some ''salut'', rd_id = Some 1\<rparr>
     = (example_db\<lparr>annotations :=
           [DocumentAnnotation 1 1 1 True 1, Seq2seqAnnotation 1 3 ''salut'' True 1]\<rparr>,
        Inr (Serialized Seq2seqAnnotationSerializer (Seq2seqAnnotation 1 3 ''salut'' True 1)))"
  by code_simp

end
